theory Spec2Isabelle
  imports Main "HOL-Library.Sublist"
begin

section \<open>Text and the subset of Python's string library the scripts use\<close>

text \<open>
  A Python \<open>str\<close> is modelled as a \<open>string\<close> (a list of characters, code points below 256).
  The test \<open>sub in s\<close> is \<open>sublist sub s\<close>, and \<open>s.startswith(p)\<close> is \<open>prefix p s\<close>.
\<close>

definition newline :: char where
  "newline = CHR 0x0A"

text \<open>\<open>str(n)\<close> inside an f-string: the decimal numeral of a Python int.\<close>

definition digit_char :: "nat \<Rightarrow> char" where
  "digit_char d = char_of (48 + d)"

fun digits :: "nat \<Rightarrow> string" where
  "digits n = (if n < 10 then [digit_char n] else digits (n div 10) @ [digit_char (n mod 10)])"

declare digits.simps [simp del]

definition str_int :: "int \<Rightarrow> string" where
  "str_int i = (if i < 0 then CHR ''-'' # digits (nat (- i)) else digits (nat i))"

text \<open>
  \<open>s.replace(old, new)\<close>: every non-overlapping occurrence of \<open>old\<close>, found from the left,
  is replaced. For an empty \<open>old\<close> Python puts \<open>new\<close> before every character and at the end.
\<close>

function str_replace :: "string \<Rightarrow> string \<Rightarrow> string \<Rightarrow> string" where
  "str_replace old new s =
     (if old = [] then concat (map (\<lambda>c. new @ [c]) s) @ new
      else case s of
        [] \<Rightarrow> []
      | c # cs \<Rightarrow>
          if prefix old s then new @ str_replace old new (drop (length old) s)
          else c # str_replace old new cs)"
  by pat_completeness auto
termination
  by (relation "measure (\<lambda>(old, new, s). length s)") (auto simp: neq_Nil_conv)

declare str_replace.simps [simp del]

text \<open>The lines of a text: \<open>s.split('\n')\<close>.\<close>

fun split_lines :: "string \<Rightarrow> string list" where
  "split_lines [] = [[]]"
| "split_lines (c # cs) =
     (if c = newline then [] # split_lines cs
      else case split_lines cs of
        l # ls \<Rightarrow> (c # l) # ls
      | [] \<Rightarrow> [[c]])"

section \<open>The regular expressions of the scripts\<close>

text \<open>
  The patterns handed to \<open>re.search\<close> and \<open>re.sub\<close> are sequences of escaped literal text and
  of greedy repetitions \<open>\s*\<close>, \<open>\s+\<close>, \<open>[^c]+\<close> of a one-character class, some of them inside a
  capturing group. No pattern uses \<open>.\<close>, \<open>^\<close>, \<open>$\<close>, alternation, nested groups or a lazy
  quantifier, so the flags \<open>re.MULTILINE\<close> and \<open>re.DOTALL\<close> change nothing.
\<close>

datatype cclass =
    Whitespace          \<comment> \<open>\<open>\s\<close>\<close>
  | NotChar char        \<comment> \<open>\<open>[^c]\<close>\<close>

text \<open>
  \<open>\s\<close> on a \<open>str\<close> pattern is Unicode white space; below code point 256 these are
  TAB, LF, VT, FF, CR, the separators 0x1C to 0x1F, the space, NEL (0x85) and NBSP (0xA0).
\<close>

definition is_space :: "char \<Rightarrow> bool" where
  "is_space c = ((of_char c :: nat) \<in> {9, 10, 11, 12, 13, 28, 29, 30, 31, 32, 133, 160})"

fun in_class :: "cclass \<Rightarrow> char \<Rightarrow> bool" where
  "in_class Whitespace c = is_space c"
| "in_class (NotChar x) c = (c \<noteq> x)"

datatype atom =
    Lit string          \<comment> \<open>escaped literal text\<close>
  | Star cclass         \<comment> \<open>greedy \<open>c*\<close>\<close>
  | Plus cclass         \<comment> \<open>greedy \<open>c+\<close>\<close>

datatype item =
    Plain atom          \<comment> \<open>outside any group\<close>
  | Group atom          \<comment> \<open>\<open>(...)\<close>, a capturing group\<close>

type_synonym regex = "item list"

text \<open>
  The numbers of characters an atom may consume at the head of \<open>s\<close>, in the order in which
  the backtracking matcher tries them: a greedy repetition takes the longest run first and
  gives characters back one at a time.
\<close>

fun candidates :: "atom \<Rightarrow> string \<Rightarrow> nat list" where
  "candidates (Lit l) s = (if prefix l s then [length l] else [])"
| "candidates (Star c) s = rev [0 ..< Suc (length (takeWhile (in_class c) s))]"
| "candidates (Plus c) s = rev [1 ..< Suc (length (takeWhile (in_class c) s))]"

fun first_some :: "(nat \<Rightarrow> 'a option) \<Rightarrow> nat list \<Rightarrow> 'a option" where
  "first_some f [] = None"
| "first_some f (k # ks) = (case f k of Some r \<Rightarrow> Some r | None \<Rightarrow> first_some f ks)"

text \<open>
  \<open>match_here p s caps\<close>: match \<open>p\<close> at the head of \<open>s\<close>. The result is the list of captured
  groups (group \<open>i\<close> is element \<open>i - 1\<close>) and the text left after the match.
\<close>

fun match_here :: "regex \<Rightarrow> string \<Rightarrow> string list \<Rightarrow> (string list \<times> string) option" where
  "match_here [] s caps = Some (caps, s)"
| "match_here (Plain a # rs) s caps =
     first_some (\<lambda>k. match_here rs (drop k s) caps) (candidates a s)"
| "match_here (Group a # rs) s caps =
     first_some (\<lambda>k. match_here rs (drop k s) (caps @ [take k s])) (candidates a s)"

text \<open>\<open>match.group(i)\<close> for \<open>i \<ge> 1\<close>.\<close>

definition group :: "string list \<Rightarrow> nat \<Rightarrow> string" where
  "group caps i = caps ! (i - 1)"

text \<open>\<open>re.search(p, s)\<close>: the groups of the leftmost match, if any.\<close>

fun re_search :: "regex \<Rightarrow> string \<Rightarrow> string list option" where
  "re_search p [] = map_option fst (match_here p [] [])"
| "re_search p (c # cs) =
     (case match_here p (c # cs) [] of
        Some (caps, rest) \<Rightarrow> Some caps
      | None \<Rightarrow> re_search p cs)"

text \<open>
  \<open>re.sub(p, repl, s)\<close> with a callable \<open>repl\<close>: the text is scanned from the left; where \<open>p\<close>
  matches, the match is replaced by \<open>repl(match)\<close> and the scan goes on after the match;
  elsewhere one character is copied. The callable may update a nonlocal variable, which is
  threaded through as the state \<open>st\<close>. An empty match is replaced and the next character
  copied (no pattern of the scripts can match the empty text).
\<close>

function re_sub :: "regex \<Rightarrow> (string list \<Rightarrow> 'st \<Rightarrow> string \<times> 'st) \<Rightarrow> string \<Rightarrow> 'st \<Rightarrow> string \<times> 'st" where
  "re_sub p repl [] st =
     (case match_here p [] [] of
        Some (caps, rest) \<Rightarrow> repl caps st
      | None \<Rightarrow> ([], st))"
| "re_sub p repl (c # cs) st =
     (case match_here p (c # cs) [] of
        Some (caps, rest) \<Rightarrow>
          (case repl caps st of (r, st') \<Rightarrow>
             if length rest < length (c # cs)
             then (case re_sub p repl rest st' of (out, st'') \<Rightarrow> (r @ out, st''))
             else (case re_sub p repl cs st' of (out, st'') \<Rightarrow> (r @ c # out, st'')))
      | None \<Rightarrow> (case re_sub p repl cs st of (out, st') \<Rightarrow> (c # out, st')))"
  by pat_completeness auto
termination
  by (relation "measure (\<lambda>(p, repl, s, st). length s)") auto

text \<open>\<open>re.sub\<close> with a template string \<open>repl\<close>: a callable without state.\<close>

definition re_sub_template :: "regex \<Rightarrow> (string list \<Rightarrow> string) \<Rightarrow> string \<Rightarrow> string" where
  "re_sub_template p tmpl s = fst (re_sub p (\<lambda>caps u. (tmpl caps, u)) s ())"

section \<open>The file system and the console\<close>

record world =
  files  :: "string \<rightharpoonup> string"           \<comment> \<open>path to content\<close>
  stdout :: "string list"                  \<comment> \<open>one entry per \<open>print\<close> call\<close>
  writes :: "(string \<times> string) list"       \<comment> \<open>every \<open>f.write\<close>, oldest first\<close>

datatype error = FileNotFoundError string

definition read_file :: "string \<Rightarrow> world \<Rightarrow> error + string" where
  "read_file path w = (case files w path of None \<Rightarrow> Inl (FileNotFoundError path) | Some c \<Rightarrow> Inr c)"

definition write_file :: "string \<Rightarrow> string \<Rightarrow> world \<Rightarrow> world" where
  "write_file path c w = w\<lparr>files := (files w)(path \<mapsto> c), writes := writes w @ [(path, c)]\<rparr>"

definition print :: "string \<Rightarrow> world \<Rightarrow> world" where
  "print line w = w\<lparr>stdout := stdout w @ [line]\<rparr>"

definition path_exists :: "string \<Rightarrow> world \<Rightarrow> bool" where
  "path_exists path w = (files w path \<noteq> None)"

section \<open>fix_test_migration.py\<close>

text \<open>\<open>r'(import org\.kigalisim\.engine\.state\.YearMatcher;)'\<close>\<close>

definition anchor_import :: string where
  "anchor_import = ''import org.kigalisim.engine.state.YearMatcher;''"

definition import_pattern :: regex where
  "import_pattern = [Group (Lit anchor_import)]"

text \<open>The import step of \<open>fix_test_file\<close> (\<open># Add imports if not already present\<close>).\<close>

definition add_imports :: "string \<Rightarrow> string" where
  "add_imports content =
     (if \<not> sublist ''StreamUpdate'' content then
        (case re_search import_pattern content of
           Some import_section \<Rightarrow>
             let new_imports = group import_section 1
                   @ ''\<newline>import org.kigalisim.engine.support.StreamUpdate;\<newline>import org.kigalisim.engine.support.StreamUpdateBuilder;''
             in str_replace (group import_section 1) new_imports content
         | None \<Rightarrow> content)
      else content)"

text \<open>\<open>r'engine\.setStream\(([^,]+),\s*([^,]+),\s*([^)]+)\);'\<close>\<close>

definition setstream_pattern :: regex where
  "setstream_pattern =
     [Plain (Lit ''engine.setStream(''), Group (Plus (NotChar CHR '','')),
      Plain (Lit '',''), Plain (Star Whitespace), Group (Plus (NotChar CHR '','')),
      Plain (Lit '',''), Plain (Star Whitespace), Group (Plus (NotChar CHR '')'')),
      Plain (Lit '');'')]"

text \<open>The closure \<open>replace_setstream\<close> of \<open>fix_test_file\<close>; the state is the nonlocal \<open>counter\<close>.\<close>

definition replace_setstream :: "string list \<Rightarrow> int \<Rightarrow> string \<times> int" where
  "replace_setstream m counter =
     (let name = group m 1; value = group m 2; year_matcher = group m 3;
          replacement =
            ''StreamUpdate update'' @ str_int counter @ '' = new StreamUpdateBuilder()\<newline>''
            @ ''        .setName('' @ name @ '')\<newline>''
            @ ''        .setValue('' @ value @ '')\<newline>''
            @ ''        .setYearMatcher('' @ year_matcher @ '')\<newline>''
            @ ''        .inferSubtractRecycling()\<newline>''
            @ ''        .build();\<newline>''
            @ ''    engine.executeStreamUpdate(update'' @ str_int counter @ '');''
      in (replacement, counter + 1))"

text \<open>The text that \<open>fix_test_file\<close> computes from the text it read.\<close>

definition fix_test_content :: "string \<Rightarrow> string" where
  "fix_test_content original_content =
     (let content = add_imports original_content;
          counter = 1
      in fst (re_sub setstream_pattern replace_setstream content counter))"

definition fix_test_file :: "string \<Rightarrow> world \<Rightarrow> error + (bool \<times> world)" where
  "fix_test_file file_path w =
     (case read_file file_path w of
        Inl e \<Rightarrow> Inl e
      | Inr original_content \<Rightarrow>
          let content = fix_test_content original_content in
          if content \<noteq> original_content
          then Inr (True, print (''Fixed '' @ file_path) (write_file file_path content w))
          else Inr (False, print (''No changes needed for '' @ file_path) w))"

text \<open>\<open>main\<close> of fix_test_migration.py: the loop over \<open>test_files\<close>, then the summary line.\<close>

definition test_files :: "string list" where
  "test_files =
     [''/home/ubuntu/kigali-sim/engine/src/test/java/org/kigalisim/lang/operation/ChangeOperationTest.java'',
      ''/home/ubuntu/kigali-sim/engine/src/test/java/org/kigalisim/lang/operation/FloorOperationTest.java'',
      ''/home/ubuntu/kigali-sim/engine/src/test/java/org/kigalisim/lang/operation/GetStreamOperationTest.java'',
      ''/home/ubuntu/kigali-sim/engine/src/test/java/org/kigalisim/lang/operation/RechargeOperationTest.java'',
      ''/home/ubuntu/kigali-sim/engine/src/test/java/org/kigalisim/lang/operation/ReplaceOperationTest.java'',
      ''/home/ubuntu/kigali-sim/engine/src/test/java/org/kigalisim/lang/operation/RetireOperationTest.java'',
      ''/home/ubuntu/kigali-sim/engine/src/test/java/org/kigalisim/engine/SingleThreadEngineTest.java'',
      ''/home/ubuntu/kigali-sim/engine/src/test/java/org/kigalisim/engine/recalc/RecalcOperationBuilderIntegrationTest.java'',
      ''/home/ubuntu/kigali-sim/engine/src/test/java/org/kigalisim/engine/support/ChangeExecutorTest.java'']"

fun main_loop :: "string list \<Rightarrow> int \<Rightarrow> world \<Rightarrow> error + (int \<times> world)" where
  "main_loop [] total_fixed w = Inr (total_fixed, w)"
| "main_loop (file_path # rest) total_fixed w =
     (if path_exists file_path w then
        (case fix_test_file file_path w of
           Inl e \<Rightarrow> Inl e
         | Inr (changed, w') \<Rightarrow>
             main_loop rest (if changed then total_fixed + 1 else total_fixed) w')
      else main_loop rest total_fixed (print (''File not found: '' @ file_path) w))"

definition main_test_migration :: "world \<Rightarrow> error + world" where
  "main_test_migration w =
     (case main_loop test_files 0 w of
        Inl e \<Rightarrow> Inl e
      | Inr (total_fixed, w') \<Rightarrow>
          Inr (print (''\<newline>Total files fixed: '' @ str_int total_fixed) w'))"

section \<open>fix_remaining_setstream.py\<close>

text \<open>\<open>r'(\s+)engine\.setStream\("([^"]+)",\s*([^,]+),\s*([^)]+)\);'\<close>\<close>

definition pattern :: regex where
  "pattern =
     [Group (Plus Whitespace), Plain (Lit ''engine.setStream(\"''),
      Group (Plus (NotChar CHR 0x22)), Plain (Lit ''\",''), Plain (Star Whitespace),
      Group (Plus (NotChar CHR '','')), Plain (Lit '',''), Plain (Star Whitespace),
      Group (Plus (NotChar CHR '')'')), Plain (Lit '');'')]"

text \<open>\<open>r'(\s+)engine\.setStream\("([^"]+)",\s*([^,]+),\s*\n\s*([^)]+)\);'\<close>\<close>

definition multiline_pattern :: regex where
  "multiline_pattern =
     [Group (Plus Whitespace), Plain (Lit ''engine.setStream(\"''),
      Group (Plus (NotChar CHR 0x22)), Plain (Lit ''\",''), Plain (Star Whitespace),
      Group (Plus (NotChar CHR '','')), Plain (Lit '',''), Plain (Star Whitespace),
      Plain (Lit ''\<newline>''), Plain (Star Whitespace),
      Group (Plus (NotChar CHR '')'')), Plain (Lit '');'')]"

text \<open>
  The closures \<open>replace_setstream\<close> and \<open>replace_multiline_setstream\<close> of
  \<open>fix_single_thread_engine_test\<close>; both update the same nonlocal \<open>counter\<close>.
\<close>

definition replace_setstream_remaining :: "string list \<Rightarrow> int \<Rightarrow> string \<times> int" where
  "replace_setstream_remaining m counter =
     (let indent = group m 1; name = group m 2; value = group m 3; year_matcher = group m 4;
          replacement =
            indent @ ''StreamUpdate update'' @ str_int counter @ '' = new StreamUpdateBuilder()\<newline>''
            @ indent @ ''    .setName(\"'' @ name @ ''\")\<newline>''
            @ indent @ ''    .setValue('' @ value @ '')\<newline>''
            @ indent @ ''    .setYearMatcher('' @ year_matcher @ '')\<newline>''
            @ indent @ ''    .inferSubtractRecycling()\<newline>''
            @ indent @ ''    .build();\<newline>''
            @ indent @ ''engine.executeStreamUpdate(update'' @ str_int counter @ '');''
      in (replacement, counter + 1))"

definition replace_multiline_setstream :: "string list \<Rightarrow> int \<Rightarrow> string \<times> int" where
  "replace_multiline_setstream m counter =
     (let indent = group m 1; name = group m 2; value = group m 3; year_matcher = group m 4;
          replacement =
            indent @ ''StreamUpdate update'' @ str_int counter @ '' = new StreamUpdateBuilder()\<newline>''
            @ indent @ ''    .setName(\"'' @ name @ ''\")\<newline>''
            @ indent @ ''    .setValue('' @ value @ '')\<newline>''
            @ indent @ ''    .setYearMatcher('' @ year_matcher @ '')\<newline>''
            @ indent @ ''    .inferSubtractRecycling()\<newline>''
            @ indent @ ''    .build();\<newline>''
            @ indent @ ''engine.executeStreamUpdate(update'' @ str_int counter @ '');''
      in (replacement, counter + 1))"

definition single_thread_engine_test_path :: string where
  "single_thread_engine_test_path =
     ''/home/ubuntu/kigali-sim/engine/src/test/java/org/kigalisim/engine/SingleThreadEngineTest.java''"

text \<open>
  The text that \<open>fix_single_thread_engine_test\<close> computes: the single-line pass, then the
  multi-line pass, the counter starting at 10 and running on from the first pass to the second.
\<close>

definition fix_single_thread_engine_content :: "string \<Rightarrow> string" where
  "fix_single_thread_engine_content original_content =
     (let counter = 10 in
      case re_sub pattern replace_setstream_remaining original_content counter of
        (content, counter') \<Rightarrow>
          fst (re_sub multiline_pattern replace_multiline_setstream content counter'))"

definition fix_single_thread_engine_test :: "world \<Rightarrow> error + world" where
  "fix_single_thread_engine_test w =
     (let file_path = single_thread_engine_test_path in
      case read_file file_path w of
        Inl e \<Rightarrow> Inl e
      | Inr original_content \<Rightarrow>
          let content = fix_single_thread_engine_content original_content in
          if content \<noteq> original_content
          then Inr (print (''Fixed '' @ file_path) (write_file file_path content w))
          else Inr (print (''No changes needed for '' @ file_path) w))"

definition floor_operation_test_path :: string where
  "floor_operation_test_path =
     ''/home/ubuntu/kigali-sim/engine/src/test/java/org/kigalisim/lang/operation/FloorOperationTest.java''"

definition old_call :: string where
  "old_call = ''    engine.setStream(\"import\", new EngineNumber(BigDecimal.valueOf(50), \"kg\"), Optional.empty());''"

definition new_call :: string where
  "new_call =
     ''    StreamUpdate importUpdate = new StreamUpdateBuilder()\<newline>''
     @ ''        .setName(\"import\")\<newline>''
     @ ''        .setValue(new EngineNumber(BigDecimal.valueOf(50), \"kg\"))\<newline>''
     @ ''        .setYearMatcher(Optional.empty())\<newline>''
     @ ''        .inferSubtractRecycling()\<newline>''
     @ ''        .build();\<newline>''
     @ ''    engine.executeStreamUpdate(importUpdate);''"

definition fix_floor_operation_content :: "string \<Rightarrow> string" where
  "fix_floor_operation_content original_content = str_replace old_call new_call original_content"

definition fix_floor_operation_test :: "world \<Rightarrow> error + world" where
  "fix_floor_operation_test w =
     (let file_path = floor_operation_test_path in
      case read_file file_path w of
        Inl e \<Rightarrow> Inl e
      | Inr original_content \<Rightarrow>
          let content = fix_floor_operation_content original_content in
          if content \<noteq> original_content
          then Inr (print (''Fixed '' @ file_path) (write_file file_path content w))
          else Inr (print (''No changes needed for '' @ file_path) w))"

definition main_remaining :: "world \<Rightarrow> error + world" where
  "main_remaining w =
     (case fix_single_thread_engine_test w of
        Inl e \<Rightarrow> Inl e
      | Inr w' \<Rightarrow> fix_floor_operation_test w')"

section \<open>fix_set_executor_test.py\<close>

text \<open>\<open>old_pattern\<close>: the assert block with the two unused captors.\<close>

definition old_pattern :: regex where
  "old_pattern =
     [Group (Plus Whitespace),
      Plain (Lit ''// Assert''),
      Plain (Star Whitespace),
      Plain (Lit ''\<newline>''),
      Plain (Plus Whitespace),
      Plain (Lit ''ArgumentCaptor<String> streamCaptor = ArgumentCaptor.forClass(String.class);''),
      Plain (Star Whitespace),
      Plain (Lit ''\<newline>''),
      Plain (Plus Whitespace),
      Plain (Lit ''ArgumentCaptor<EngineNumber> valueCaptor = ArgumentCaptor.forClass(EngineNumber.class);''),
      Plain (Star Whitespace),
      Plain (Lit ''\<newline>''),
      Plain (Star Whitespace),
      Plain (Lit ''\<newline>''),
      Plain (Plus Whitespace),
      Plain (Lit ''ArgumentCaptor<StreamUpdate> updateCaptor = ArgumentCaptor.forClass(StreamUpdate.class);''),
      Plain (Star Whitespace),
      Plain (Lit ''\<newline>''),
      Plain (Plus Whitespace),
      Plain (Lit ''verify(mockEngine, times(2)).executeStreamUpdate(updateCaptor.capture());''),
      Plain (Star Whitespace),
      Plain (Lit ''\<newline>''),
      Plain (Star Whitespace),
      Plain (Lit ''\<newline>''),
      Plain (Plus Whitespace),
      Plain (Lit ''// Check domestic call (''),
      Plain (Plus (NotChar CHR '')'')),
      Plain (Lit '')''),
      Plain (Star Whitespace),
      Plain (Lit ''\<newline>''),
      Plain (Plus Whitespace),
      Plain (Lit ''assertEquals(\"domestic\", streamCaptor.getAllValues().get(0));''),
      Plain (Star Whitespace),
      Plain (Lit ''\<newline>''),
      Plain (Plus Whitespace),
      Plain (Lit ''assertEquals(''),
      Group (Plus (NotChar CHR '','')),
      Plain (Lit '', valueCaptor.getAllValues().get(0).getValue());''),
      Plain (Star Whitespace),
      Plain (Lit ''\<newline>''),
      Plain (Plus Whitespace),
      Plain (Lit ''assertEquals(\"''),
      Group (Plus (NotChar CHR 0x22)),
      Plain (Lit ''\", valueCaptor.getAllValues().get(0).getUnits());''),
      Plain (Star Whitespace),
      Plain (Lit ''\<newline>''),
      Plain (Star Whitespace),
      Plain (Lit ''\<newline>''),
      Plain (Plus Whitespace),
      Plain (Lit ''// Check import call (''),
      Plain (Plus (NotChar CHR '')'')),
      Plain (Lit '')''),
      Plain (Star Whitespace),
      Plain (Lit ''\<newline>''),
      Plain (Plus Whitespace),
      Plain (Lit ''assertEquals(\"import\", streamCaptor.getAllValues().get(1));''),
      Plain (Star Whitespace),
      Plain (Lit ''\<newline>''),
      Plain (Plus Whitespace),
      Plain (Lit ''assertEquals(''),
      Group (Plus (NotChar CHR '','')),
      Plain (Lit '', valueCaptor.getAllValues().get(1).getValue());''),
      Plain (Star Whitespace),
      Plain (Lit ''\<newline>''),
      Plain (Plus Whitespace),
      Plain (Lit ''assertEquals(\"''),
      Group (Plus (NotChar CHR 0x22)),
      Plain (Lit ''\", valueCaptor.getAllValues().get(1).getUnits());'')]"

text \<open>The callable \<open>replace_assert_block\<close>.\<close>

definition replace_assert_block :: "string list \<Rightarrow> string" where
  "replace_assert_block m =
     (let indent = group m 1; domestic_value = group m 2; units1 = group m 3;
          import_value = group m 4; units2 = group m 5
      in  indent @ ''// Assert\<newline>''
          @ indent @ ''ArgumentCaptor<StreamUpdate> updateCaptor = ArgumentCaptor.forClass(StreamUpdate.class);\<newline>''
          @ indent @ ''verify(mockEngine, times(2)).executeStreamUpdate(updateCaptor.capture());\<newline>''
          @ ''\<newline>''
          @ indent @ ''List<StreamUpdate> capturedUpdates = updateCaptor.getAllValues();\<newline>''
          @ ''\<newline>''
          @ indent @ ''// Check domestic call\<newline>''
          @ indent @ ''assertEquals(\"domestic\", capturedUpdates.get(0).getName());\<newline>''
          @ indent @ ''assertEquals('' @ domestic_value @ '', capturedUpdates.get(0).getValue().getValue());\<newline>''
          @ indent @ ''assertEquals(\"'' @ units1 @ ''\", capturedUpdates.get(0).getValue().getUnits());\<newline>''
          @ ''\<newline>''
          @ indent @ ''// Check import call\<newline>''
          @ indent @ ''assertEquals(\"import\", capturedUpdates.get(1).getName());\<newline>''
          @ indent @ ''assertEquals('' @ import_value @ '', capturedUpdates.get(1).getValue().getValue());\<newline>''
          @ indent @ ''assertEquals(\"'' @ units2 @ ''\", capturedUpdates.get(1).getValue().getUnits());'')"

text \<open>\<open>r'assertEquals\("domestic", streamCaptor\.getAllValues\(\)\.get\(0\)\);'\<close>\<close>

definition domestic_name_pattern :: regex where
  "domestic_name_pattern =
     [Plain (Lit ''assertEquals(\"domestic\", streamCaptor.getAllValues().get(0));'')]"

text \<open>\<open>r'assertEquals\("import", streamCaptor\.getAllValues\(\)\.get\(1\)\);'\<close>\<close>

definition import_name_pattern :: regex where
  "import_name_pattern =
     [Plain (Lit ''assertEquals(\"import\", streamCaptor.getAllValues().get(1));'')]"

text \<open>\<open>r'assertEquals\(([^,]+), valueCaptor\.getAllValues\(\)\.get\(0\)\.getValue\(\)\);'\<close>\<close>

definition domestic_value_pattern :: regex where
  "domestic_value_pattern =
     [Plain (Lit ''assertEquals(''),
      Group (Plus (NotChar CHR '','')),
      Plain (Lit '', valueCaptor.getAllValues().get(0).getValue());'')]"

text \<open>\<open>r'assertEquals\(([^,]+), valueCaptor\.getAllValues\(\)\.get\(1\)\.getValue\(\)\);'\<close>\<close>

definition import_value_pattern :: regex where
  "import_value_pattern =
     [Plain (Lit ''assertEquals(''),
      Group (Plus (NotChar CHR '','')),
      Plain (Lit '', valueCaptor.getAllValues().get(1).getValue());'')]"

text \<open>\<open>r'assertEquals\("([^"]+)", valueCaptor\.getAllValues\(\)\.get\(0\)\.getUnits\(\)\);'\<close>\<close>

definition domestic_units_pattern :: regex where
  "domestic_units_pattern =
     [Plain (Lit ''assertEquals(\"''),
      Group (Plus (NotChar CHR 0x22)),
      Plain (Lit ''\", valueCaptor.getAllValues().get(0).getUnits());'')]"

text \<open>\<open>r'assertEquals\("([^"]+)", valueCaptor\.getAllValues\(\)\.get\(1\)\.getUnits\(\)\);'\<close>\<close>

definition import_units_pattern :: regex where
  "import_units_pattern =
     [Plain (Lit ''assertEquals(\"''),
      Group (Plus (NotChar CHR 0x22)),
      Plain (Lit ''\", valueCaptor.getAllValues().get(1).getUnits());'')]"

text \<open>\<open>r'\s+ArgumentCaptor<String> streamCaptor = ArgumentCaptor\.forClass\(String\.class\);\s*\n'\<close>\<close>

definition stream_captor_pattern :: regex where
  "stream_captor_pattern =
     [Plain (Plus Whitespace),
      Plain (Lit ''ArgumentCaptor<String> streamCaptor = ArgumentCaptor.forClass(String.class);''),
      Plain (Star Whitespace),
      Plain (Lit ''\<newline>'')]"

text \<open>\<open>r'\s+ArgumentCaptor<EngineNumber> valueCaptor = ArgumentCaptor\.forClass\(EngineNumber\.class\);\s*\n'\<close>\<close>

definition value_captor_pattern :: regex where
  "value_captor_pattern =
     [Plain (Plus Whitespace),
      Plain (Lit ''ArgumentCaptor<EngineNumber> valueCaptor = ArgumentCaptor.forClass(EngineNumber.class);''),
      Plain (Star Whitespace),
      Plain (Lit ''\<newline>'')]"

text \<open>
  The text that \<open>fix_set_executor_test\<close> computes: the substitution of the whole assert
  block, the six substitutions of single assertions and the two removals, in this order.
\<close>

definition fix_set_executor_content :: "string \<Rightarrow> string" where
  "fix_set_executor_content original_content =
     (let content = re_sub_template old_pattern replace_assert_block original_content;
          content = re_sub_template domestic_name_pattern
                      (\<lambda>m. ''assertEquals(\"domestic\", capturedUpdates.get(0).getName());'') content;
          content = re_sub_template import_name_pattern
                      (\<lambda>m. ''assertEquals(\"import\", capturedUpdates.get(1).getName());'') content;
          content = re_sub_template domestic_value_pattern
                      (\<lambda>m. ''assertEquals('' @ group m 1 @ '', capturedUpdates.get(0).getValue().getValue());'') content;
          content = re_sub_template import_value_pattern
                      (\<lambda>m. ''assertEquals('' @ group m 1 @ '', capturedUpdates.get(1).getValue().getValue());'') content;
          content = re_sub_template domestic_units_pattern
                      (\<lambda>m. ''assertEquals(\"'' @ group m 1 @ ''\", capturedUpdates.get(0).getValue().getUnits());'') content;
          content = re_sub_template import_units_pattern
                      (\<lambda>m. ''assertEquals(\"'' @ group m 1 @ ''\", capturedUpdates.get(1).getValue().getUnits());'') content;
          content = re_sub_template stream_captor_pattern
                      (\<lambda>m. []) content;
          content = re_sub_template value_captor_pattern
                      (\<lambda>m. []) content
      in content)"

definition set_executor_test_path :: string where
  "set_executor_test_path =
     ''/home/ubuntu/kigali-sim/engine/src/test/java/org/kigalisim/engine/support/SetExecutorTest.java''"

definition fix_set_executor_test :: "world \<Rightarrow> error + world" where
  "fix_set_executor_test w =
     (let file_path = set_executor_test_path in
      case read_file file_path w of
        Inl e \<Rightarrow> Inl e
      | Inr original_content \<Rightarrow>
          let content = fix_set_executor_content original_content in
          if content \<noteq> original_content
          then Inr (print (''Fixed '' @ file_path) (write_file file_path content w))
          else Inr (print (''No changes needed for '' @ file_path) w))"

definition main_set_executor :: "world \<Rightarrow> error + world" where
  "main_set_executor w = fix_set_executor_test w"

section \<open>Auxiliary notions for the proofs\<close>

text \<open>The literal texts of a pattern.\<close>

fun literals :: "regex \<Rightarrow> string list" where
  "literals [] = []"
| "literals (Plain (Lit l) # rs) = l # literals rs"
| "literals (Group (Lit l) # rs) = l # literals rs"
| "literals (_ # rs) = literals rs"


text \<open>
  What a driver leaves behind, given the text it read and the text it computed: one write
  of the new text and the line \<open>Fixed\<close> when they differ, no write and the line
  \<open>No changes needed\<close> when they are equal.
\<close>

definition written_back_iff_changed :: "string \<Rightarrow> string \<Rightarrow> string \<Rightarrow> world \<Rightarrow> world \<Rightarrow> bool" where
  "written_back_iff_changed path original content w w' =
     (writes w' = writes w @ (if content \<noteq> original then [(path, content)] else []) \<and>
      files w' = (if content \<noteq> original then (files w)(path \<mapsto> content) else files w) \<and>
      stdout w' = stdout w @ [(if content \<noteq> original then ''Fixed '' else ''No changes needed for '') @ path])"

text \<open>A world with one file and nothing printed or written yet.\<close>

definition one_file :: "string \<Rightarrow> string \<Rightarrow> world" where
  "one_file path content = \<lparr>files = [path \<mapsto> content], stdout = [], writes = []\<rparr>"

text \<open>A world without any file.\<close>

definition no_files :: world where
  "no_files = \<lparr>files = Map.empty, stdout = [], writes = []\<rparr>"

section \<open>Facts about the matcher and the substitution\<close>

lemma first_some_SomeD:
  "first_some f ks = Some r \<Longrightarrow> \<exists>k \<in> set ks. f k = Some r"
  by (induction ks) (auto split: option.splits)

lemma first_some_None_iff:
  "first_some f ks = None \<longleftrightarrow> (\<forall>k \<in> set ks. f k = None)"
  by (induction ks) (auto split: option.splits)

lemma re_sub_no_match:
  "re_search p s = None \<Longrightarrow> re_sub p repl s st = (s, st)"
proof (induction s)
  case Nil
  then show ?case by (cases "match_here p [] []") auto
next
  case (Cons c cs)
  from Cons.prems have m: "match_here p (c # cs) [] = None" and r: "re_search p cs = None"
    by (auto split: option.splits)
  from Cons.IH [OF r] m show ?case by simp
qed

lemma re_sub_template_no_match:
  "re_search p s = None \<Longrightarrow> re_sub_template p tmpl s = s"
  by (simp add: re_sub_template_def re_sub_no_match)

lemma sublist_drop: "sublist l (drop k s) \<Longrightarrow> sublist l s"
  by (metis append_take_drop_id sublist_append_leftI sublist_order.order_trans)

lemma candidates_Lit_prefix: "k \<in> set (candidates (Lit l) s) \<Longrightarrow> prefix l s"
  by (auto split: if_splits)

lemma match_here_literals:
  "match_here p s caps = Some r \<Longrightarrow> l \<in> set (literals p) \<Longrightarrow> sublist l s"
proof (induction p arbitrary: s caps)
  case Nil
  then show ?case by simp
next
  case (Cons i rs)
  show ?case
  proof (cases i)
    case (Plain a)
    with Cons.prems obtain k where k: "k \<in> set (candidates a s)"
      and m: "match_here rs (drop k s) caps = Some r"
      by (auto dest!: first_some_SomeD)
    show ?thesis
    proof (cases "l \<in> set (literals rs)")
      case True
      from Cons.IH [OF m True] show ?thesis by (rule sublist_drop)
    next
      case False
      with Cons.prems Plain obtain "a = Lit l" by (cases a) auto
      with k have "prefix l s" by (auto split: if_splits)
      then show ?thesis by (rule prefix_imp_sublist)
    qed
  next
    case (Group a)
    with Cons.prems obtain k where k: "k \<in> set (candidates a s)"
      and m: "match_here rs (drop k s) (caps @ [take k s]) = Some r"
      by (auto dest!: first_some_SomeD)
    show ?thesis
    proof (cases "l \<in> set (literals rs)")
      case True
      from Cons.IH [OF m True] show ?thesis by (rule sublist_drop)
    next
      case False
      with Cons.prems Group obtain "a = Lit l" by (cases a) auto
      with k have "prefix l s" by (auto split: if_splits)
      then show ?thesis by (rule prefix_imp_sublist)
    qed
  qed
qed

lemma re_search_literals:
  "re_search p s = Some caps \<Longrightarrow> l \<in> set (literals p) \<Longrightarrow> sublist l s"
proof (induction s)
  case Nil
  then show ?case by (auto dest: match_here_literals)
next
  case (Cons c cs)
  show ?case
  proof (cases "match_here p (c # cs) []")
    case None
    with Cons have "sublist l cs" by simp
    then show ?thesis by (simp add: sublist_Cons_right)
  next
    case (Some r)
    then show ?thesis using Cons.prems(2) by (rule match_here_literals)
  qed
qed

lemma re_search_None_if_literal_absent:
  "l \<in> set (literals p) \<Longrightarrow> \<not> sublist l s \<Longrightarrow> re_search p s = None"
  by (cases "re_search p s") (auto dest: re_search_literals)

lemma str_replace_absent:
  "\<not> sublist old s \<Longrightarrow> str_replace old new s = s"
proof (induction s)
  case Nil
  then have "old \<noteq> []" by auto
  then show ?case by (simp add: str_replace.simps)
next
  case (Cons c cs)
  then have "old \<noteq> []" "\<not> prefix old (c # cs)" "\<not> sublist old cs"
    by (auto simp: sublist_Cons_right)
  with Cons.IH show ?case by (simp add: str_replace.simps [of old new "c # cs"])
qed

lemma match_here_group_lit:
  "match_here [Group (Lit l)] s [] = (if prefix l s then Some ([l], drop (length l) s) else None)"
  by (auto simp: prefix_def)

lemma re_search_group_lit:
  "re_search [Group (Lit l)] s = (if sublist l s then Some [l] else None)"
proof (induction s)
  case Nil
  show ?case by (auto simp: match_here_group_lit simp del: match_here.simps)
next
  case (Cons c cs)
  show ?case
    using Cons.IH
    by (auto simp: match_here_group_lit sublist_Cons_right simp del: match_here.simps)
qed

lemma add_imports_eq:
  "add_imports content =
     (if sublist ''StreamUpdate'' content then content
      else str_replace anchor_import
             (anchor_import @ ''\<newline>import org.kigalisim.engine.support.StreamUpdate;\<newline>import org.kigalisim.engine.support.StreamUpdateBuilder;'')
             content)"
  by (simp add: add_imports_def import_pattern_def re_search_group_lit group_def
      str_replace_absent del: re_search.simps)

lemma add_imports_noop:
  "sublist ''StreamUpdate'' content \<or> \<not> sublist anchor_import content \<Longrightarrow> add_imports content = content"
  by (auto simp: add_imports_eq str_replace_absent)

lemma path_exists_print [simp]: "path_exists q (print l w) = path_exists q w"
  by (simp add: path_exists_def print_def)

lemma fix_test_file_exists:
  assumes "path_exists p w"
  shows "\<exists>b w'. fix_test_file p w = Inr (b, w') \<and> (\<forall>q. path_exists q w' = path_exists q w) \<and>
           prefix (stdout w) (stdout w') \<and>
           fst ` set (writes w') \<subseteq> insert p (fst ` set (writes w))"
proof -
  from assms obtain c where c: "files w p = Some c" by (auto simp: path_exists_def)
  show ?thesis
    using c by (auto simp: fix_test_file_def read_file_def Let_def print_def write_file_def
        path_exists_def)
qed

lemma main_loop_total:
  "\<exists>t' w'. main_loop ps t w = Inr (t', w') \<and> (\<forall>q. path_exists q w' = path_exists q w) \<and>
      t \<le> t' \<and> t' \<le> t + int (length (filter (\<lambda>q. path_exists q w) ps)) \<and>
      prefix (stdout w) (stdout w') \<and>
      fst ` set (writes w') \<subseteq> fst ` set (writes w) \<union> {q \<in> set ps. path_exists q w}"
proof (induction ps arbitrary: t w)
  case Nil
  show ?case by simp
next
  case (Cons p ps)
  show ?case
  proof (cases "path_exists p w")
    case True
    from fix_test_file_exists [OF True] obtain b w1 where
      f: "fix_test_file p w = Inr (b, w1)" and
      e: "\<forall>q. path_exists q w1 = path_exists q w" and
      o: "prefix (stdout w) (stdout w1)" and
      wr: "fst ` set (writes w1) \<subseteq> insert p (fst ` set (writes w))"
      by blast
    from Cons.IH [of "if b then t + 1 else t" w1] obtain t' w' where
      m: "main_loop ps (if b then t + 1 else t) w1 = Inr (t', w')" and
      e': "\<forall>q. path_exists q w' = path_exists q w1" and
      t1: "(if b then t + 1 else t) \<le> t'" and
      t2: "t' \<le> (if b then t + 1 else t) + int (length (filter (\<lambda>q. path_exists q w1) ps))" and
      o': "prefix (stdout w1) (stdout w')" and
      wr': "fst ` set (writes w') \<subseteq> fst ` set (writes w1) \<union> {q \<in> set ps. path_exists q w1}"
      by blast
    have fl: "filter (\<lambda>q. path_exists q w1) ps = filter (\<lambda>q. path_exists q w) ps"
      using e by simp
    have "main_loop (p # ps) t w = Inr (t', w')" using True f m by simp
    moreover have "\<forall>q. path_exists q w' = path_exists q w" using e e' by simp
    moreover have "t \<le> t'" using t1 by (simp split: if_splits)
    moreover have "t' \<le> t + int (length (filter (\<lambda>q. path_exists q w) (p # ps)))"
      using t2 True fl by (simp split: if_splits)
    moreover have "prefix (stdout w) (stdout w')" using o o' by (rule prefix_order.trans)
    moreover have "fst ` set (writes w') \<subseteq> fst ` set (writes w) \<union> {q \<in> set (p # ps). path_exists q w}"
    proof
      fix a assume "a \<in> fst ` set (writes w')"
      with wr' have "a \<in> fst ` set (writes w1) \<or> (a \<in> set ps \<and> path_exists a w1)" by blast
      with wr e True show "a \<in> fst ` set (writes w) \<union> {q \<in> set (p # ps). path_exists q w}"
        by auto
    qed
    ultimately show ?thesis by blast
  next
    case False
    let ?w1 = "print (''File not found: '' @ p) w"
    from Cons.IH [of t ?w1] obtain t' w' where
      m: "main_loop ps t ?w1 = Inr (t', w')" and
      e': "\<forall>q. path_exists q w' = path_exists q ?w1" and
      t1: "t \<le> t'" and
      t2: "t' \<le> t + int (length (filter (\<lambda>q. path_exists q ?w1) ps))" and
      o': "prefix (stdout ?w1) (stdout w')" and
      wr': "fst ` set (writes w') \<subseteq> fst ` set (writes ?w1) \<union> {q \<in> set ps. path_exists q ?w1}"
      by blast
    have "main_loop (p # ps) t w = Inr (t', w')" using False m by simp
    moreover have "\<forall>q. path_exists q w' = path_exists q w" using e' by simp
    moreover have "t' \<le> t + int (length (filter (\<lambda>q. path_exists q w) (p # ps)))"
      using t2 False by simp
    moreover have "prefix (stdout w) (stdout w')"
      using o' by (auto simp: print_def prefix_def)
    moreover have "fst ` set (writes w') \<subseteq> fst ` set (writes w) \<union> {q \<in> set (p # ps). path_exists q w}"
    proof
      fix a assume "a \<in> fst ` set (writes w')"
      with wr' have "a \<in> fst ` set (writes ?w1) \<or> (a \<in> set ps \<and> path_exists a ?w1)" by blast
      moreover have "writes ?w1 = writes w" by (simp add: print_def)
      ultimately show "a \<in> fst ` set (writes w) \<union> {q \<in> set (p # ps). path_exists q w}"
        by auto
    qed
    ultimately show ?thesis using t1 by blast
  qed
qed

lemma main_loop_append:
  "main_loop (pre @ rest) t w =
     (case main_loop pre t w of Inl e \<Rightarrow> Inl e | Inr (t1, w1) \<Rightarrow> main_loop rest t1 w1)"
  by (induction pre arbitrary: t w) (auto split: sum.splits)

section \<open>The claims\<close>

text \<open>
  C4. Every driver writes the file back if and only if the text it computed differs from
  the text it read: then the new text is written once and \<open>Fixed <path>\<close> is printed;
  otherwise nothing is written, the file is as it was and \<open>No changes needed for <path>\<close>
  is printed. The boolean that \<open>fix_test_file\<close> returns is true exactly when the text
  changed.
\<close>

theorem write_back_iff_changed:
  "(files w path = Some original \<longrightarrow>
      (\<exists>w'. fix_test_file path w = Inr (fix_test_content original \<noteq> original, w') \<and>
            written_back_iff_changed path original (fix_test_content original) w w')) \<and>
   (files w set_executor_test_path = Some original \<longrightarrow>
      (\<exists>w'. fix_set_executor_test w = Inr w' \<and>
            written_back_iff_changed set_executor_test_path original
              (fix_set_executor_content original) w w')) \<and>
   (files w single_thread_engine_test_path = Some original \<longrightarrow>
      (\<exists>w'. fix_single_thread_engine_test w = Inr w' \<and>
            written_back_iff_changed single_thread_engine_test_path original
              (fix_single_thread_engine_content original) w w')) \<and>
   (files w floor_operation_test_path = Some original \<longrightarrow>
      (\<exists>w'. fix_floor_operation_test w = Inr w' \<and>
            written_back_iff_changed floor_operation_test_path original
              (fix_floor_operation_content original) w w'))"
  by (simp add: fix_test_file_def fix_set_executor_test_def fix_single_thread_engine_test_def
      fix_floor_operation_test_def read_file_def write_file_def print_def
      written_back_iff_changed_def Let_def)

theorem write_back_iff_changed_witness:
  "(\<exists>w'. fix_test_file ''T.java'' (one_file ''T.java'' ''engine.setStream(a, b, c);'') = Inr (True, w')
        \<and> stdout w' = [''Fixed T.java''] \<and> length (writes w') = 1) \<and>
   (\<exists>w'. fix_set_executor_test (one_file set_executor_test_path ''class T {}'') = Inr w'
        \<and> stdout w' = [''No changes needed for '' @ set_executor_test_path] \<and> writes w' = []) \<and>
   (\<exists>w'. fix_single_thread_engine_test (one_file single_thread_engine_test_path ''class T {}'') = Inr w'
        \<and> stdout w' = [''No changes needed for '' @ single_thread_engine_test_path] \<and> writes w' = []) \<and>
   (\<exists>w'. fix_floor_operation_test (one_file floor_operation_test_path old_call) = Inr w'
        \<and> stdout w' = [''Fixed '' @ floor_operation_test_path]
        \<and> writes w' = [(floor_operation_test_path, new_call)])"
proof -
  have f: "\<And>p c. files (one_file p c) p = Some c"
    and o: "\<And>p c. stdout (one_file p c) = []"
    and w: "\<And>p c. writes (one_file p c) = []"
    by (simp_all add: one_file_def)
  have c1: "fix_test_content ''engine.setStream(a, b, c);'' \<noteq> ''engine.setStream(a, b, c);''"
    by code_simp
  have c3: "fix_set_executor_content ''class T {}'' = ''class T {}''"
    by code_simp
  have c4: "fix_single_thread_engine_content ''class T {}'' = ''class T {}''"
    by code_simp
  have c5: "fix_floor_operation_content old_call = new_call"
    by code_simp
  have c6: "new_call \<noteq> old_call"
    by code_simp
  note t = write_back_iff_changed [THEN conjunct1, rule_format, OF f]
    write_back_iff_changed [THEN conjunct2, THEN conjunct1, rule_format, OF f]
    write_back_iff_changed [THEN conjunct2, THEN conjunct2, THEN conjunct1, rule_format, OF f]
    write_back_iff_changed [THEN conjunct2, THEN conjunct2, THEN conjunct2, rule_format, OF f]
  have a1: "\<exists>w'. fix_test_file ''T.java'' (one_file ''T.java'' ''engine.setStream(a, b, c);'') = Inr (True, w')
        \<and> stdout w' = [''Fixed T.java''] \<and> length (writes w') = 1"
    using t(1) [of "''T.java''" "''engine.setStream(a, b, c);''"] c1
    by (auto simp add: written_back_iff_changed_def o w)
  have a2: "\<exists>w'. fix_set_executor_test (one_file set_executor_test_path ''class T {}'') = Inr w'
        \<and> stdout w' = [''No changes needed for '' @ set_executor_test_path] \<and> writes w' = []"
    using t(2) [of "''class T {}''"]
    by (auto simp add: c3 written_back_iff_changed_def o w)
  have a3: "\<exists>w'. fix_single_thread_engine_test (one_file single_thread_engine_test_path ''class T {}'') = Inr w'
        \<and> stdout w' = [''No changes needed for '' @ single_thread_engine_test_path] \<and> writes w' = []"
    using t(3) [of "''class T {}''"]
    by (auto simp add: c4 written_back_iff_changed_def o w)
  have a4: "\<exists>w'. fix_floor_operation_test (one_file floor_operation_test_path old_call) = Inr w'
        \<and> stdout w' = [''Fixed '' @ floor_operation_test_path]
        \<and> writes w' = [(floor_operation_test_path, new_call)]"
    using t(4) [of old_call] c6
    by (auto simp add: c5 written_back_iff_changed_def o w)
  from a1 a2 a3 a4 show ?thesis by blast
qed

text \<open>
  C10. When the text contains neither the marker \<open>StreamUpdate\<close> nor the anchor import, the
  search for the anchor finds nothing, the import step inserts nothing and raises no error:
  the result of \<open>fix_test_file\<close> is the call-site substitution applied to the text as read,
  so migrated call sites are written without their imports.
\<close>

theorem no_anchor_no_insertion:
  assumes "\<not> sublist ''StreamUpdate'' content" and "\<not> sublist anchor_import content"
  shows "re_search import_pattern content = None \<and>
         add_imports content = content \<and>
         fix_test_content content = fst (re_sub setstream_pattern replace_setstream content 1) \<and>
         (\<forall>w path. files w path = Some content \<longrightarrow>
            (\<exists>w'. fix_test_file path w = Inr (fix_test_content content \<noteq> content, w')))"
proof -
  have a: "add_imports content = content"
    using assms by (simp add: add_imports_noop)
  have s: "re_search import_pattern content = None"
    using assms by (simp add: import_pattern_def re_search_group_lit del: re_search.simps)
  have d: "\<exists>w'. fix_test_file path w = Inr (fix_test_content content \<noteq> content, w')"
    if "files w path = Some content" for w path
    using that by (simp add: fix_test_file_def read_file_def Let_def)
  from a s d show ?thesis by (simp add: fix_test_content_def)
qed

theorem no_anchor_no_insertion_witness:
  "add_imports ''engine.setStream(a, b, c);'' = ''engine.setStream(a, b, c);'' \<and>
   fix_test_content ''engine.setStream(a, b, c);'' =
     fst (re_sub setstream_pattern replace_setstream ''engine.setStream(a, b, c);'' 1) \<and>
   \<not> sublist ''import'' (fix_test_content ''engine.setStream(a, b, c);'') \<and>
   (\<exists>w'. fix_test_file ''T.java'' (one_file ''T.java'' ''engine.setStream(a, b, c);'') = Inr (True, w'))"
proof -
  have h1: "\<not> sublist ''StreamUpdate'' ''engine.setStream(a, b, c);''" by code_simp
  have h2: "\<not> sublist anchor_import ''engine.setStream(a, b, c);''" by code_simp
  have n: "\<not> sublist ''import'' (fix_test_content ''engine.setStream(a, b, c);'')" by code_simp
  have c: "fix_test_content ''engine.setStream(a, b, c);'' \<noteq> ''engine.setStream(a, b, c);''"
    by code_simp
  have f: "files (one_file ''T.java'' ''engine.setStream(a, b, c);'') ''T.java''
      = Some ''engine.setStream(a, b, c);''"
    by (simp add: one_file_def)
  from no_anchor_no_insertion [OF h1 h2] f n c show ?thesis by auto
qed

text \<open>
  C3, as stated: a text without any occurrence of the call pattern is left unchanged by
  \<open>fix_test_file\<close>. It fails on a file that holds the anchor import and no call site: the
  import step runs before and independently of the substitution, so the two imports are
  inserted, the file is written and \<open>Fixed\<close> is reported.
\<close>

theorem no_call_site_counterexample:
  "re_search setstream_pattern anchor_import = None \<and>
   fix_test_content anchor_import \<noteq> anchor_import \<and>
   fix_test_file ''T.java'' (one_file ''T.java'' anchor_import) =
     Inr (True, print ''Fixed T.java''
                  (write_file ''T.java'' (fix_test_content anchor_import)
                     (one_file ''T.java'' anchor_import)))"
proof -
  have a: "re_search setstream_pattern anchor_import = None" by code_simp
  have b: "fix_test_content anchor_import \<noteq> anchor_import" by code_simp
  from a b show ?thesis
    by (simp add: fix_test_file_def read_file_def one_file_def Let_def)
qed

text \<open>
  C3, amended. A text without any match of the call pattern, which moreover holds the marker
  \<open>StreamUpdate\<close> or lacks the anchor import, is left as it is by \<open>fix_test_file\<close>: the
  result is \<open>False\<close>, nothing is written, the files are unchanged and
  \<open>No changes needed\<close> is printed. The single-file fixers of fix_remaining_setstream.py,
  which have no import step, leave every text without a match of their patterns unchanged.
\<close>

theorem no_call_site_no_change:
  "(re_search setstream_pattern content = None \<and>
    (sublist ''StreamUpdate'' content \<or> \<not> sublist anchor_import content) \<and>
    files w path = Some content \<longrightarrow>
      fix_test_content content = content \<and>
      (\<exists>w'. fix_test_file path w = Inr (False, w') \<and> writes w' = writes w \<and>
            files w' = files w \<and>
            stdout w' = stdout w @ [''No changes needed for '' @ path])) \<and>
   (re_search pattern content = None \<and> re_search multiline_pattern content = None \<longrightarrow>
      fix_single_thread_engine_content content = content) \<and>
   (\<not> sublist old_call content \<longrightarrow> fix_floor_operation_content content = content)"
proof (intro conjI impI)
  assume h: "re_search setstream_pattern content = None \<and>
    (sublist ''StreamUpdate'' content \<or> \<not> sublist anchor_import content) \<and>
    files w path = Some content"
  then have a: "add_imports content = content" by (simp add: add_imports_noop)
  with h show c: "fix_test_content content = content"
    by (simp add: fix_test_content_def re_sub_no_match)
  from h c show "\<exists>w'. fix_test_file path w = Inr (False, w') \<and> writes w' = writes w \<and>
            files w' = files w \<and>
            stdout w' = stdout w @ [''No changes needed for '' @ path]"
    by (simp add: fix_test_file_def read_file_def print_def Let_def)
next
  assume "re_search pattern content = None \<and> re_search multiline_pattern content = None"
  then show "fix_single_thread_engine_content content = content"
    by (simp add: fix_single_thread_engine_content_def re_sub_no_match)
next
  assume "\<not> sublist old_call content"
  then show "fix_floor_operation_content content = content"
    by (simp add: fix_floor_operation_content_def str_replace_absent)
qed

theorem no_call_site_no_change_witness:
  "fix_test_content ''class T {}'' = ''class T {}'' \<and>
   (\<exists>w'. fix_test_file ''T.java'' (one_file ''T.java'' ''class T {}'') = Inr (False, w') \<and>
         writes w' = [] \<and> stdout w' = [''No changes needed for T.java'']) \<and>
   fix_single_thread_engine_content ''class T {}'' = ''class T {}'' \<and>
   fix_floor_operation_content ''class T {}'' = ''class T {}''"
proof -
  have h1: "re_search setstream_pattern ''class T {}'' = None" by code_simp
  have h2: "\<not> sublist anchor_import ''class T {}''" by code_simp
  have h3: "files (one_file ''T.java'' ''class T {}'') ''T.java'' = Some ''class T {}''"
    by (simp add: one_file_def)
  have h4: "re_search pattern ''class T {}'' = None" by code_simp
  have h5: "re_search multiline_pattern ''class T {}'' = None" by code_simp
  have h6: "\<not> sublist old_call ''class T {}''" by code_simp
  have o: "writes (one_file ''T.java'' ''class T {}'') = []"
    "stdout (one_file ''T.java'' ''class T {}'') = []"
    by (simp_all add: one_file_def)
  from no_call_site_no_change [of "''class T {}''" "one_file ''T.java'' ''class T {}''" "''T.java''"]
    h1 h2 h3 h4 h5 h6 o
  show ?thesis by auto
qed

end
